theory Spec2Isabelle
  imports Main "HOL-Library.Sublist" "HOL-Library.AList"
begin

section \<open>Platform data, as the handlers read it\<close>

text \<open>
  The handlers receive discord.js objects. Only the members the modelled functions read
  are kept; each is a field named after the member. Identifiers (snowflakes) and texts
  are strings; \<open>Date.now()\<close> is an integer number of milliseconds.
\<close>

type_synonym Snowflake = string

text \<open>\<open>MessageType\<close>: the two values the handler accepts, and every other one.\<close>

datatype MessageType = Default | Reply | OtherMessageType nat

datatype ChannelKind = DMChannel | GuildTextChannel | ThreadChannel

datatype Permission =
  ViewChannel | SendMessages | ReadMessageHistory | SendMessagesInThreads
  | Administrator | OtherPermission nat

record Channel =
  channel_id :: Snowflake
  channel_kind :: ChannelKind
  parentId :: "Snowflake option"
  guildId :: "Snowflake option"
  topic :: "string option"
  permissionsFor :: "Permission list option"
  sendable :: bool
  joined :: bool

record Embed =
  embed_title :: "string option"
  embed_description :: "string option"

record Message =
  message_id :: Snowflake
  message_type :: MessageType
  author_id :: Snowflake
  author_bot :: bool
  author_username :: string
  content :: string
  embeds :: "Embed list"
  createdTimestamp :: int
  createdAt :: string
  mentions_users :: "Snowflake list"
  mentions_roles :: "Snowflake list"
  mentions_channels :: "Snowflake list"
  mentions_everyone :: bool
  channel :: Channel
  reference_messageId :: "Snowflake option"

text \<open>
  \<open>BotConfig\<close> of \<open>types.ts\<close> (the variant with \<open>convLength\<close>). A custom field is a
  key with its JSON value, kept as rendered text.
\<close>

record BotConfig =
  bot_config_id :: string
  inferUrl :: string
  apiKey :: "string option"
  sessionHeaderName :: "string option"
  convLength :: nat
  respondTo :: "string option"
  respondAsReply :: bool
  customFields :: "(string \<times> string) list"

text \<open>\<open>message.client\<close>: the logged-in user's id and the client's \<open>botConfig\<close>.\<close>

record Client =
  client_user_id :: Snowflake
  botConfig :: BotConfig

definition isDMBased :: "Channel \<Rightarrow> bool" where
  "isDMBased ch = (channel_kind ch = DMChannel)"

definition isThread :: "Channel \<Rightarrow> bool" where
  "isThread ch = (channel_kind ch = ThreadChannel)"

text \<open>
  \<open>PermissionsBitField.has(required)\<close>: every required flag is held, or the
  administrator flag is.
\<close>

definition has :: "Permission list \<Rightarrow> Permission list \<Rightarrow> bool" where
  "has perms required = (Administrator \<in> set perms \<or> list_all (\<lambda>p. p \<in> set perms) required)"

text \<open>
  \<open>String.prototype.toLowerCase\<close> on the ASCII letters (texts are byte strings; bytes
  outside \<open>A..Z\<close> are kept), and \<open>String.prototype.includes\<close>.
\<close>

definition lower_char :: "char \<Rightarrow> char" where
  "lower_char c = (let n = (of_char c :: nat) in if 65 \<le> n \<and> n \<le> 90 then char_of (n + 32) else c)"

definition toLowerCase :: "string \<Rightarrow> string" where
  "toLowerCase s = map lower_char s"

fun includes_str :: "string \<Rightarrow> string \<Rightarrow> bool" where
  "includes_str [] t = (t = [])"
| "includes_str (c # cs) t = (prefix t (c # cs) \<or> includes_str cs t)"

text \<open>
  A thrown \<open>Error\<close> is the left summand, carrying its message; a returned value is the
  right summand.
\<close>

type_synonym 'a result = "string + 'a"

section \<open>The bot-to-bot loop guard\<close>

record BotConversationChain =
  chainCount :: nat
  lastBotId :: string
  lastActivity :: int

text \<open>\<open>botToBotChains\<close>: the module-level \<open>Map\<close> from channel id to chain.\<close>

type_synonym Chains = "Snowflake \<rightharpoonup> BotConversationChain"

text \<open>
  The repository holds two variants of \<open>eventHandler.ts\<close>: \<open>src/eventHandler.ts\<close>, and a
  later one whose \<open>shouldRespond\<close> starts with a check of \<open>message.type\<close> and tests
  channels with \<open>isDMBased()\<close> and \<open>isThread()\<close>. Both are modelled.

  The block \<open>if (message.author.bot) { ... }\<close> of \<open>shouldRespond\<close> is the same text in
  both (lines 34-48 of \<open>src/eventHandler.ts\<close>, lines 35-48 of the later variant). The
  first component of the result says whether the block executed \<open>return false\<close>; the
  second is \<open>botToBotChains\<close> afterwards. \<open>now\<close> is the block's \<open>Date.now()\<close>.
\<close>

definition botLoopGuard :: "Snowflake \<Rightarrow> int \<Rightarrow> Chains \<Rightarrow> Message \<Rightarrow> bool \<times> Chains" where
  "botLoopGuard botId now botToBotChains message =
     (if author_bot message then
        (if author_id message = botId then (True, botToBotChains)
         else
           let channelId = channel_id (channel message);
               chain = (case botToBotChains channelId of
                          Some c \<Rightarrow> c
                        | None \<Rightarrow> \<lparr>chainCount = 0, lastBotId = [], lastActivity = 0\<rparr>);
               chain = (if now - lastActivity chain > 600000
                        then chain\<lparr>chainCount := 0, lastBotId := []\<rparr> else chain);
               chain = (if lastBotId chain \<noteq> [] \<and> lastBotId chain \<noteq> author_id message
                        then chain\<lparr>chainCount := chainCount chain + 1\<rparr> else chain);
               chain = chain\<lparr>lastBotId := author_id message\<rparr>;
               chain = chain\<lparr>lastActivity := now\<rparr>;
               botToBotChains' = botToBotChains(channelId \<mapsto> chain)
           in (chainCount chain \<ge> 3, botToBotChains'))
      else (False, botToBotChains))"

section \<open>The response decision\<close>

text \<open>
  \<open>await getDisplayName(botId, message.guildId)\<close> is a lookup outside the handler: its
  outcome is the argument \<open>displayName\<close> (a thrown error or the name).
\<close>

text \<open>
  The later variant of \<open>shouldRespond\<close> (the handler that checks \<open>message.type\<close>), after
  the loop guard: the permission check, the mention check, the thread check and the
  triggers (lines 50-92).
\<close>

definition respondPolicy :: "Client \<Rightarrow> string result \<Rightarrow> Message \<Rightarrow> bool result" where
  "respondPolicy client displayName message =
     (let botCfg = botConfig client;
          botId = client_user_id client;
          ch = channel message;
          permsOk =
            (if \<not> isDMBased ch then
               (case permissionsFor ch of
                  None \<Rightarrow> False
                | Some perms \<Rightarrow> has perms [ViewChannel, SendMessages, ReadMessageHistory])
             else True);
          hasAnyMention =
            (mentions_everyone message \<or> length (mentions_users message) > 0
             \<or> length (mentions_roles message) > 0 \<or> length (mentions_channels message) > 0);
          isBotMentioned = (botId \<in> set (mentions_users message))
      in if \<not> permsOk then Inr False
         else if hasAnyMention \<and> \<not> isBotMentioned then Inr False
         else if isThread ch then (if sendable ch \<and> joined ch then Inr True else Inr False)
         else if respondTo botCfg = Some ''dynamic'' \<or> isDMBased ch \<or> isBotMentioned
           then Inr True
         else if respondTo botCfg = Some ''name'' then
           (case displayName of
              Inl e \<Rightarrow> Inl e
            | Inr name \<Rightarrow>
                if includes_str (toLowerCase (content message)) (toLowerCase name)
                then Inr True else Inr False)
         else Inr False)"

text \<open>
  \<open>shouldRespond\<close>, later variant (lines 23-93): the message type check, the loop guard,
  then the policy. The result is the decision and \<open>botToBotChains\<close> afterwards.
\<close>

definition shouldRespond ::
  "Client \<Rightarrow> int \<Rightarrow> string result \<Rightarrow> Chains \<Rightarrow> Message \<Rightarrow> bool result \<times> Chains" where
  "shouldRespond client now displayName botToBotChains message =
     (if message_type message \<noteq> Default \<and> message_type message \<noteq> Reply
      then (Inr False, botToBotChains)
      else
        (case botLoopGuard (client_user_id client) now botToBotChains message of
           (True, botToBotChains') \<Rightarrow> (Inr False, botToBotChains')
         | (False, botToBotChains') \<Rightarrow> (respondPolicy client displayName message, botToBotChains')))"

text \<open>
  \<open>shouldRespond\<close> of \<open>src/eventHandler.ts\<close> after the loop guard (lines 50-84): the
  permission check (with the thread permission for a thread), the \<open>dynamic\<close> setting, the
  DM or thread case, the mention, and the display name looked for in the text.
\<close>

definition respondPolicy_eventHandler :: "Client \<Rightarrow> string result \<Rightarrow> Message \<Rightarrow> bool result" where
  "respondPolicy_eventHandler client displayName message =
     (let botCfg = botConfig client;
          botId = client_user_id client;
          ch = channel message;
          permsOk =
            (if channel_kind ch \<noteq> DMChannel then
               (case permissionsFor ch of
                  None \<Rightarrow> False
                | Some perms \<Rightarrow>
                    has perms ([ViewChannel, SendMessages, ReadMessageHistory]
                      @ (if channel_kind ch = ThreadChannel then [SendMessagesInThreads] else [])))
             else True)
      in if \<not> permsOk then Inr False
         else if respondTo botCfg = Some ''dynamic'' then Inr True
         else if channel_kind ch = DMChannel \<or> channel_kind ch = ThreadChannel then Inr True
         else if botId \<in> set (mentions_users message) then Inr True
         else
           (case displayName of
              Inl e \<Rightarrow> Inl e
            | Inr name \<Rightarrow>
                if includes_str (toLowerCase (content message)) (toLowerCase name)
                then Inr True else Inr False))"

text \<open>\<open>shouldRespond\<close> of \<open>src/eventHandler.ts\<close> (lines 28-85): no message type check.\<close>

definition shouldRespond_eventHandler ::
  "Client \<Rightarrow> int \<Rightarrow> string result \<Rightarrow> Chains \<Rightarrow> Message \<Rightarrow> bool result \<times> Chains" where
  "shouldRespond_eventHandler client now displayName botToBotChains message =
     (case botLoopGuard (client_user_id client) now botToBotChains message of
        (True, botToBotChains') \<Rightarrow> (Inr False, botToBotChains')
      | (False, botToBotChains') \<Rightarrow> (respondPolicy_eventHandler client displayName message, botToBotChains'))"

text \<open>
  The gate at the head of \<open>handleMessageCreate\<close> in the earlier manager,
  \<open>discordManager.ts\<close> (lines 76-80); \<open>shouldAllowBotMessage\<close> is the stub of that file
  (lines 36-38). The first component says whether the handler returned.
\<close>

definition shouldAllowBotMessage :: "Message \<Rightarrow> bool" where
  "shouldAllowBotMessage message = True"

definition handleMessageCreate_gate :: "Snowflake \<Rightarrow> Chains \<Rightarrow> Message \<Rightarrow> bool \<times> Chains" where
  "handleMessageCreate_gate botId botToBotChains message =
     (if author_bot message then
        (if author_id message = botId then (True, botToBotChains)
         else if \<not> shouldAllowBotMessage message then (True, botToBotChains)
         else (False, botToBotChains(channel_id (channel message) := None)))
      else (False, botToBotChains))"

text \<open>
  The client calls the handler once per \<open>messageCreate\<close> event, one event after the
  other: the table left by one call is the table the next call reads. \<open>guardRun\<close> runs
  the guard block over a trace of (time, message) events; \<open>decisions\<close> runs
  \<open>shouldRespond\<close>.
\<close>

fun guardRun :: "Snowflake \<Rightarrow> Chains \<Rightarrow> (int \<times> Message) list \<Rightarrow> bool list \<times> Chains" where
  "guardRun botId tbl [] = ([], tbl)"
| "guardRun botId tbl ((now, m) # es) =
     (case botLoopGuard botId now tbl m of
        (stop, tbl') \<Rightarrow>
          (case guardRun botId tbl' es of (stops, tbl'') \<Rightarrow> (stop # stops, tbl'')))"



section \<open>The inference client\<close>

text \<open>\<open>llmAPI.ts\<close>: \<open>parseLLMResponse\<close> and \<open>callLLM\<close>.\<close>

record ConversationMessage =
  username :: string
  msg_text :: string
  timestamp :: "string option"

text \<open>
  \<open>LLMResponse\<close>, the body of the HTTP response as the client reads it: a bare text, the
  JSON \<open>null\<close>, or an object with the optional members \<open>success\<close>, \<open>reply\<close> and
  \<open>error\<close> (any other JSON value reads as an object without them). \<open>resp_json\<close> is
  \<open>JSON.stringify(data, null, 2)\<close> of the object.
\<close>

datatype LLMReply = ReplyString string | ReplyObject string

datatype LLMResponse =
  RawText string
  | JsonNull
  | JsonObject (resp_success: "bool option") (resp_reply: "LLMReply option")
      (resp_error: "string option") (resp_json: string)

text \<open>
  The reply handed to discord.js (\<open>BaseMessageOptions\<close>): \<open>{ content }\<close>, an object
  passed through as it came, or \<open>undefined\<close> when the member is missing.
\<close>

datatype BaseMessageOptions = Content string | PassedThrough string | Undefined

datatype LLMResult = Success BaseMessageOptions | RateLimited

text \<open>
  What can be thrown inside \<open>callLLM\<close>: an \<open>Error\<close> with its message, a \<open>TypeError\<close>
  of the runtime, or an \<open>AxiosError\<close> with the response it carries (status and body),
  if any.
\<close>

datatype Thrown = Error string | TypeError string | AxiosError "(nat \<times> LLMResponse) option"

datatype BodyValue =
  TextValue string | ConversationValue "ConversationMessage list" | JsonValue string

record Request =
  url :: string
  body :: "(string \<times> BodyValue) list"
  headers :: "(string \<times> string) list"

text \<open>
  The endpoint, seen from the client: for a request, the HTTP response (status and body),
  or no response at all (a network failure, a timeout).
\<close>

datatype HttpOutcome = Response nat LLMResponse | NoResponse

fun parseLLMResponse :: "LLMResponse \<Rightarrow> Thrown + LLMResult" where
  "parseLLMResponse (RawText s) = Inr (Success (Content s))"
| "parseLLMResponse JsonNull = Inl (TypeError ''Cannot read properties of null'')"
| "parseLLMResponse (JsonObject None r e js) = Inr (Success (Content js))"
| "parseLLMResponse (JsonObject (Some False) r e js) =
     Inl (Error (case e of Some x \<Rightarrow> x | None \<Rightarrow> ''API request failed''))"
| "parseLLMResponse (JsonObject (Some True) r e js) =
     Inr (Success (case r of
                     Some (ReplyString s) \<Rightarrow> Content s
                   | Some (ReplyObject ob) \<Rightarrow> PassedThrough ob
                   | None \<Rightarrow> Undefined))"

text \<open>\<open>{ ...first, ...botConfig.customFields }\<close>: a later key replaces an earlier one.\<close>

definition spread :: "(string \<times> BodyValue) list \<Rightarrow> (string \<times> string) list \<Rightarrow> (string \<times> BodyValue) list" where
  "spread first custom = fold (\<lambda>(k, v) b. AList.update k (JsonValue v) b) custom first"

text \<open>
  \<open>requestBody\<close> of \<open>callLLM\<close> (lines 58-60). \<open>conversation[0].text\<close> of an empty array
  is a \<open>TypeError\<close>.
\<close>

definition requestBody ::
  "BotConfig \<Rightarrow> ConversationMessage list \<Rightarrow> Thrown + (string \<times> BodyValue) list" where
  "requestBody botCfg conversation =
     (if convLength botCfg = 0 then
        (case conversation of
           [] \<Rightarrow> Inl (TypeError ''Cannot read properties of undefined'')
         | first # _ \<Rightarrow> Inr (spread [(''message'', TextValue (msg_text first))] (customFields botCfg)))
      else Inr (spread [(''conversation'', ConversationValue conversation)] (customFields botCfg)))"

definition requestHeaders :: "BotConfig \<Rightarrow> string \<Rightarrow> (string \<times> string) list" where
  "requestHeaders botCfg sessionId =
     (let base = [(''Authorization'', ''Bearer '' @ (case apiKey botCfg of Some k \<Rightarrow> k | None \<Rightarrow> ''undefined'')),
                  (''Content-Type'', ''application/json'')]
      in case sessionHeaderName botCfg of
           None \<Rightarrow> base
         | Some h \<Rightarrow> if h = [] then base else AList.update h sessionId base)"

text \<open>
  \<open>axios.post\<close> with the default \<open>validateStatus\<close>: a status in 200..299 resolves with
  the response; any other status rejects with an \<open>AxiosError\<close> carrying the response; no
  response rejects with an \<open>AxiosError\<close> carrying none.
\<close>

definition axios_post :: "(Request \<Rightarrow> HttpOutcome) \<Rightarrow> Request \<Rightarrow> Thrown + nat \<times> LLMResponse" where
  "axios_post endpoint req =
     (case endpoint req of
        NoResponse \<Rightarrow> Inl (AxiosError None)
      | Response status d \<Rightarrow>
          if 200 \<le> status \<and> status < 300 then Inr (status, d)
          else Inl (AxiosError (Some (status, d))))"

fun decimal :: "nat \<Rightarrow> string" where
  "decimal n = (if n < 10 then [char_of (48 + n)] else decimal (n div 10) @ [char_of (48 + n mod 10)])"

text \<open>The request \<open>axios.post\<close> is given (lines 58-71), if building it does not throw.\<close>

definition buildRequest :: "BotConfig \<Rightarrow> ConversationMessage list \<Rightarrow> string \<Rightarrow> Thrown + Request" where
  "buildRequest botCfg conversation sessionId =
     (case requestBody botCfg conversation of
        Inl e \<Rightarrow> Inl e
      | Inr b \<Rightarrow> Inr \<lparr>url = inferUrl botCfg, body = b, headers = requestHeaders botCfg sessionId\<rparr>)"

text \<open>The \<open>try\<close> block of \<open>callLLM\<close> (lines 52-78).\<close>

definition callLLM_try ::
  "(Request \<Rightarrow> HttpOutcome) \<Rightarrow> BotConfig \<Rightarrow> ConversationMessage list \<Rightarrow> string \<Rightarrow> Thrown + LLMResult" where
  "callLLM_try endpoint botCfg conversation sessionId =
     (if length conversation = 0 then Inl (Error ''Conversation array cannot be empty'')
      else
        (case buildRequest botCfg conversation sessionId of
           Inl e \<Rightarrow> Inl e
         | Inr req \<Rightarrow>
             (case axios_post endpoint req of
                Inl e \<Rightarrow> Inl e
              | Inr (status, d) \<Rightarrow>
                  if status \<noteq> 200
                  then Inl (Error (''Request failed with status code '' @ decimal status))
                  else parseLLMResponse d)))"

text \<open>\<open>axiosError.response.data?.error\<close>.\<close>

fun data_error :: "LLMResponse \<Rightarrow> string option" where
  "data_error (JsonObject s r e js) = e"
| "data_error (RawText t) = None"
| "data_error JsonNull = None"

text \<open>The \<open>catch\<close> block of \<open>callLLM\<close> (lines 80-96).\<close>

definition callLLM_catch :: "Thrown \<Rightarrow> LLMResult result" where
  "callLLM_catch thrown =
     (case thrown of
        AxiosError (Some (status, d)) \<Rightarrow>
          if status = 429 then Inr RateLimited
          else (case data_error d of
                  Some x \<Rightarrow> if x \<noteq> [] then Inl x else Inl ''Failed to get response from LLM''
                | None \<Rightarrow> Inl ''Failed to get response from LLM'')
      | _ \<Rightarrow> Inl ''Failed to get response from LLM'')"

definition callLLM ::
  "(Request \<Rightarrow> HttpOutcome) \<Rightarrow> BotConfig \<Rightarrow> ConversationMessage list \<Rightarrow> string \<Rightarrow> LLMResult result" where
  "callLLM endpoint botCfg conversation sessionId =
     (case callLLM_try endpoint botCfg conversation sessionId of
        Inr r \<Rightarrow> Inr r
      | Inl thrown \<Rightarrow> callLLM_catch thrown)"

section \<open>The configuration loader\<close>

text \<open>
  \<open>loadBotConfig\<close> of the earlier \<open>index.ts\<close> (line 21):
  \<open>Math.max(1, parseInt(process.env[...CONVERSATION_LENGTH] || '1', 10))\<close>. \<open>parseInt\<close> is
  taken as given, \<open>None\<close> standing for \<open>NaN\<close>, which \<open>Math.max\<close> hands on.
\<close>

definition loadBotConfig_messageLimit :: "(string \<Rightarrow> int option) \<Rightarrow> string option \<Rightarrow> int option" where
  "loadBotConfig_messageLimit parseInt env =
     (case parseInt (case env of Some v \<Rightarrow> if v \<noteq> [] then v else ''1'' | None \<Rightarrow> ''1'') of
        None \<Rightarrow> None
      | Some n \<Rightarrow> Some (max 1 n))"

section \<open>The conversation fetcher\<close>

text \<open>
  \<open>responseOrchestrator.ts\<close>, in the variant that refreshes the typing indicator with
  \<open>setInterval\<close> and reads \<open>botConfig.convLength\<close>.
\<close>

text \<open>
  What the orchestrator asks of the world outside it, each member the outcome of one call
  (a call may reject): \<open>channel.messages.fetch({ limit, before })\<close> (the values of the
  collection, in the order the platform returned them), \<open>getDisplayName(userId, guildId)\<close>,
  \<open>new Date().toISOString()\<close>, \<open>message.channel.isSendable()\<close>, \<open>channel.sendTyping()\<close>,
  \<open>channel.messages.cache.get(id)\<close>, \<open>message.fetchReference()\<close>, \<open>userMessage.reply(...)\<close>,
  \<open>channel.send(...)\<close>, and the inference endpoint behind \<open>axios.post\<close>.
\<close>

record Platform =
  messages_fetch :: "nat \<Rightarrow> Snowflake \<Rightarrow> Message list result"
  getDisplayName :: "Snowflake \<Rightarrow> Snowflake option \<Rightarrow> string result"
  nowISO :: string
  isSendable :: bool
  sendTyping :: "unit result"
  messages_cache_get :: "Snowflake \<Rightarrow> Message option"
  fetchReference :: "Message result"
  reply :: "Message \<Rightarrow> BaseMessageOptions \<Rightarrow> unit result"
  send :: "BaseMessageOptions \<Rightarrow> unit result"
  inferEndpoint :: "Request \<Rightarrow> HttpOutcome"

text \<open>\<open>Array.from(new Set(xs))\<close>: the first occurrence of each element, in order.\<close>

fun uniq :: "'a list \<Rightarrow> 'a list" where
  "uniq [] = []"
| "uniq (x # xs) = x # uniq (filter (\<lambda>y. y \<noteq> x) xs)"

text \<open>\<open>Promise.all\<close>: all the values, or the first rejection.\<close>

fun promise_all :: "'a result list \<Rightarrow> 'a list result" where
  "promise_all [] = Inr []"
| "promise_all (Inl e # rs) = Inl e"
| "promise_all (Inr v # rs) = (case promise_all rs of Inl e \<Rightarrow> Inl e | Inr vs \<Rightarrow> Inr (v # vs))"

text \<open>\<open>Array.prototype.join\<close>.\<close>

fun join :: "string \<Rightarrow> string list \<Rightarrow> string" where
  "join sep [] = []"
| "join sep [x] = x"
| "join sep (x # y # ys) = x @ sep @ join sep (y # ys)"

definition isDigit :: "char \<Rightarrow> bool" where
  "isDigit c = (let n = (of_char c :: nat) in 48 \<le> n \<and> n \<le> 57)"

text \<open>
  One match of \<open>/<@!?(\d+)>/\<close> at the head of the text: the captured digits and the text
  after the match.
\<close>

definition matchMention :: "string \<Rightarrow> (string \<times> string) option" where
  "matchMention s =
     (case s of
        a # b # r \<Rightarrow>
          if a = CHR ''<'' \<and> b = CHR ''@'' then
            (let r' = (case r of c # r2 \<Rightarrow> if c = CHR ''!'' then r2 else r | [] \<Rightarrow> r);
                 ds = takeWhile isDigit r';
                 rest = dropWhile isDigit r'
             in if ds = [] then None
                else (case rest of
                        g # rest' \<Rightarrow> if g = CHR ''>'' then Some (ds, rest') else None
                      | [] \<Rightarrow> None))
          else None
      | _ \<Rightarrow> None)"

lemma matchMention_shorter:
  "matchMention s = Some (uid, rest) \<Longrightarrow> length rest < length s"
proof -
  have dw: "length (dropWhile isDigit xs) \<le> length xs" for xs :: string
    by (simp add: length_dropWhile_le)
  assume m: "matchMention s = Some (uid, rest)"
  then obtain a b r where s: "s = a # b # r"
    by (auto simp: matchMention_def split: list.splits)
  define r' where "r' = (case r of c # r2 \<Rightarrow> if c = CHR ''!'' then r2 else r | [] \<Rightarrow> r)"
  have r'len: "length r' \<le> length r"
    by (auto simp: r'_def split: list.splits)
  from m s have "\<exists>g. dropWhile isDigit r' = g # rest"
    by (auto simp: matchMention_def r'_def Let_def split: list.splits if_splits)
  then obtain g where "dropWhile isDigit r' = g # rest" ..
  then have "length rest < length r'"
    using dw [of r'] by simp
  with r'len s show ?thesis by simp
qed

text \<open>
  \<open>text.replace(mentionRegex, ...)\<close> with the global flag: matches are found left to
  right, each replaced by the name of the user, or written back as \<open><@id>\<close>.
\<close>

function replaceMentions :: "(Snowflake \<rightharpoonup> string) \<Rightarrow> string \<Rightarrow> string" where
  "replaceMentions nameMap [] = []"
| "replaceMentions nameMap (c # cs) =
     (case matchMention (c # cs) of
        Some (uid, rest) \<Rightarrow>
          (case nameMap uid of Some n \<Rightarrow> n | None \<Rightarrow> ''<@'' @ uid @ ''>'')
            @ replaceMentions nameMap rest
      | None \<Rightarrow> c # replaceMentions nameMap cs)"
  by pat_completeness auto
termination
  by (relation "measure (\<lambda>(nameMap, s). length s)") (auto dest: matchMention_shorter)

text \<open>\<open>xs.filter(Boolean)\<close> on texts that may be missing: the non-empty ones.\<close>

fun filterBoolean :: "string option list \<Rightarrow> string list" where
  "filterBoolean [] = []"
| "filterBoolean (None # xs) = filterBoolean xs"
| "filterBoolean (Some s # xs) = (if s \<noteq> [] then s # filterBoolean xs else filterBoolean xs)"

definition embedText :: "Embed \<Rightarrow> string" where
  "embedText e = join '' '' (filterBoolean [embed_title e, embed_description e])"

definition formatMessage :: "(Snowflake \<rightharpoonup> string) \<Rightarrow> Message \<Rightarrow> ConversationMessage" where
  "formatMessage nameMap msg =
     \<lparr>username = (case nameMap (author_id msg) of Some n \<Rightarrow> n | None \<Rightarrow> author_username msg),
      msg_text = replaceMentions nameMap (content msg)
         @ (if length (embeds msg) \<noteq> 0 then '' '' @ join '' '' (map embedText (embeds msg)) else []),
      timestamp = Some (createdAt msg)\<rparr>"

text \<open>\<open>fetchConversationFromDiscord\<close> (lines 91-153).\<close>

definition fetchConversationFromDiscord ::
  "Platform \<Rightarrow> Client \<Rightarrow> Message \<Rightarrow> nat \<Rightarrow> ConversationMessage list result" where
  "fetchConversationFromDiscord platform client message limit =
     (let botId = client_user_id client;
          ch = channel message;
          before = message_id message;
          fetched = (if limit \<noteq> 0 then messages_fetch platform limit before else Inr [])
      in case fetched of
           Inl e \<Rightarrow> Inl e
         | Inr found \<Rightarrow>
             (let sorted = sort_key createdTimestamp found;
                  sorted = (if author_id message \<noteq> botId then sorted @ [message] else sorted);
                  userIds = uniq (map author_id sorted);
                  gid = (if \<not> isDMBased ch then guildId ch else None)
              in case promise_all (map (\<lambda>userId. getDisplayName platform userId gid) userIds) of
                   Inl e \<Rightarrow> Inl e
                 | Inr displayNames \<Rightarrow>
                     (let nameMap = map_of (zip userIds displayNames);
                          formatted = map (formatMessage nameMap) sorted
                      in case topic ch of
                           Some t \<Rightarrow>
                             if t \<noteq> [] then
                               Inr (\<lparr>username = ''Channel Topic'', msg_text = t,
                                      timestamp = Some (nowISO platform)\<rparr> # formatted)
                             else Inr formatted
                         | None \<Rightarrow> Inr formatted)))"


section \<open>The ephemeral conversation cache\<close>

record CacheEntry =
  lastFetchTime :: int
  messages :: "ConversationMessage list"

text \<open>
  The state the orchestrator keeps between events. \<open>channelCache\<close> is the module-level
  \<open>Map\<close>, as the list of its entries in insertion order; \<open>fetches\<close> counts the calls of
  \<open>fetchConversationFromDiscord\<close> made so far; \<open>typingIntervals\<close> counts the timers
  started with \<open>setInterval\<close> and not yet stopped with \<open>clearInterval\<close>.
\<close>

record World =
  channelCache :: "(Snowflake \<times> CacheEntry) list"
  fetches :: nat
  typingIntervals :: nat

text \<open>\<open>ephemeralFetchConversation\<close> (lines 162-198); \<open>now\<close> is its \<open>Date.now()\<close>.\<close>

definition ephemeralFetchConversation ::
  "Platform \<Rightarrow> Client \<Rightarrow> int \<Rightarrow> Message \<Rightarrow> nat \<Rightarrow> int \<Rightarrow> World
     \<Rightarrow> ConversationMessage list result \<times> World" where
  "ephemeralFetchConversation platform client now message limit cacheDurationMs w =
     (let cacheKey = channel_id (channel message);
          cached = map_of (channelCache w) cacheKey;
          refetched =
            (case fetchConversationFromDiscord platform client message limit of
               Inl e \<Rightarrow> (Inl e, w\<lparr>fetches := fetches w + 1\<rparr>)
             | Inr msgs \<Rightarrow>
                 (let cache1 = AList.update cacheKey \<lparr>lastFetchTime = now, messages = msgs\<rparr>
                                 (channelCache w);
                      oldestAllowed = now - cacheDurationMs;
                      cache2 = (if length cache1 > 1000
                                then filter (\<lambda>(key, v). \<not> lastFetchTime v < oldestAllowed) cache1
                                else cache1)
                  in (Inr msgs, w\<lparr>channelCache := cache2, fetches := fetches w + 1\<rparr>)))
      in case cached of
           Some entry \<Rightarrow>
             if now - lastFetchTime entry < cacheDurationMs then (Inr (messages entry), w)
             else refetched
         | None \<Rightarrow> refetched)"

section \<open>The session identity\<close>

text \<open>
  \<open>sessionData\<close> of \<open>processConversation\<close> and its encoding
  \<open>Buffer.from(JSON.stringify(sessionData)).toString('base64')\<close>. Texts are byte strings
  (a well-formed text in UTF-8), so \<open>Buffer.from\<close> changes nothing. \<open>JSON.stringify\<close>
  writes the four members in order, each text quoted as \<open>QuoteJSONString\<close> does (the two
  characters it must escape, the short escapes, \<open>\u00XX\<close> for the other control
  characters), a missing parent id as \<open>null\<close>; \<open>toString('base64')\<close> is base64 with the
  standard alphabet and padding.
\<close>

record SessionData =
  sd_botId :: Snowflake
  sd_botName :: string
  sd_userId :: Snowflake
  sd_channelId :: "Snowflake option"

abbreviation dquote :: char where
  "dquote \<equiv> CHR 0x22"

abbreviation bslash :: char where
  "bslash \<equiv> CHR 0x5C"

definition hexDigits :: string where
  "hexDigits = ''0123456789abcdef''"

definition jsonEscape :: "char \<Rightarrow> string" where
  "jsonEscape c =
     (let n = (of_char c :: nat) in
      if c = dquote then [bslash, dquote]
      else if c = bslash then [bslash, bslash]
      else if n = 8 then [bslash, CHR ''b'']
      else if n = 12 then [bslash, CHR ''f'']
      else if n = 10 then [bslash, CHR ''n'']
      else if n = 13 then [bslash, CHR ''r'']
      else if n = 9 then [bslash, CHR ''t'']
      else if n < 32 then
        [bslash, CHR ''u'', CHR ''0'', CHR ''0'', hexDigits ! (n div 16), hexDigits ! (n mod 16)]
      else [c])"

definition QuoteJSONString :: "string \<Rightarrow> string" where
  "QuoteJSONString s = dquote # concat (map jsonEscape s) @ [dquote]"

definition jsonKey :: "string \<Rightarrow> string" where
  "jsonKey k = dquote # k @ [dquote, CHR '':'']"

definition JSON_stringify :: "SessionData \<Rightarrow> string" where
  "JSON_stringify d =
     ''{'' @ jsonKey ''botId'' @ QuoteJSONString (sd_botId d)
     @ '','' @ jsonKey ''botName'' @ QuoteJSONString (sd_botName d)
     @ '','' @ jsonKey ''userId'' @ QuoteJSONString (sd_userId d)
     @ '','' @ jsonKey ''channelId''
     @ (case sd_channelId d of Some c \<Rightarrow> QuoteJSONString c | None \<Rightarrow> ''null'')
     @ ''}''"

definition base64Alphabet :: string where
  "base64Alphabet = ''ABCDEFGHIJKLMNOPQRSTUVWXYZabcdefghijklmnopqrstuvwxyz0123456789+/''"

definition b64 :: "nat \<Rightarrow> char" where
  "b64 n = base64Alphabet ! n"

fun toBase64 :: "string \<Rightarrow> string" where
  "toBase64 [] = []"
| "toBase64 [a] =
     (let x = (of_char a :: nat)
      in [b64 (x div 4), b64 ((x mod 4) * 16), CHR ''='', CHR ''=''])"
| "toBase64 [a, b] =
     (let x = (of_char a :: nat); y = (of_char b :: nat)
      in [b64 (x div 4), b64 ((x mod 4) * 16 + y div 16), b64 ((y mod 16) * 4), CHR ''=''])"
| "toBase64 (a # b # c # rest) =
     (let x = (of_char a :: nat); y = (of_char b :: nat); z = (of_char c :: nat)
      in [b64 (x div 4), b64 ((x mod 4) * 16 + y div 16), b64 ((y mod 16) * 4 + z div 64),
          b64 (z mod 64)] @ toBase64 rest)"

text \<open>The record built in \<open>processConversation\<close> (lines 247-254) and its encoding.\<close>

definition buildSessionData :: "Snowflake \<Rightarrow> string \<Rightarrow> Message \<Rightarrow> Channel \<Rightarrow> SessionData" where
  "buildSessionData botId botName userMessage ch =
     \<lparr>sd_botId = botId, sd_botName = botName, sd_userId = author_id userMessage,
      sd_channelId = (if isThread ch then parentId ch else Some (channel_id ch))\<rparr>"

definition encodeSessionId :: "SessionData \<Rightarrow> string" where
  "encodeSessionId d = toBase64 (JSON_stringify d)"

text \<open>
  The endpoint's side, which the repository does not hold: base64 decoding and the
  reading of the JSON text written above.
\<close>

fun indexOf :: "'a \<Rightarrow> 'a list \<Rightarrow> nat option" where
  "indexOf x [] = None"
| "indexOf x (y # ys) = (if x = y then Some 0 else map_option Suc (indexOf x ys))"

definition b64val :: "char \<Rightarrow> nat option" where
  "b64val c = indexOf c base64Alphabet"

fun fromBase64 :: "string \<Rightarrow> string option" where
  "fromBase64 [] = Some []"
| "fromBase64 (p # q # r # s # rest) =
     (case (b64val p, b64val q) of
        (Some i, Some j) \<Rightarrow>
          if r = CHR ''='' then
            (if s = CHR ''='' \<and> rest = [] \<and> j mod 16 = 0 then Some [char_of (i * 4 + j div 16)] else None)
          else
            (case b64val r of
               Some k \<Rightarrow>
                 if s = CHR ''='' then
                   (if rest = [] \<and> k mod 4 = 0
                    then Some [char_of (i * 4 + j div 16), char_of ((j mod 16) * 16 + k div 4)]
                    else None)
                 else
                   (case b64val s of
                      Some l \<Rightarrow>
                        (case fromBase64 rest of
                           Some t \<Rightarrow>
                             Some (char_of (i * 4 + j div 16) # char_of ((j mod 16) * 16 + k div 4)
                                   # char_of ((k mod 4) * 64 + l) # t)
                         | None \<Rightarrow> None)
                    | None \<Rightarrow> None)
             | None \<Rightarrow> None)
      | _ \<Rightarrow> None)"
| "fromBase64 _ = None"

definition unescape :: "char \<Rightarrow> char option" where
  "unescape e =
     (if e = dquote then Some dquote
      else if e = bslash then Some bslash
      else if e = CHR ''/'' then Some CHR ''/''
      else if e = CHR ''b'' then Some (char_of (8 :: nat))
      else if e = CHR ''f'' then Some (char_of (12 :: nat))
      else if e = CHR ''n'' then Some (char_of (10 :: nat))
      else if e = CHR ''r'' then Some (char_of (13 :: nat))
      else if e = CHR ''t'' then Some (char_of (9 :: nat))
      else None)"

definition hexval :: "char \<Rightarrow> nat option" where
  "hexval c = (case indexOf c hexDigits of Some n \<Rightarrow> Some n | None \<Rightarrow> indexOf c ''0123456789ABCDEF'')"

definition hex4 :: "char \<Rightarrow> char \<Rightarrow> char \<Rightarrow> char \<Rightarrow> nat option" where
  "hex4 h1 h2 h3 h4 =
     (case (hexval h1, hexval h2, hexval h3, hexval h4) of
        (Some a, Some b, Some c, Some d) \<Rightarrow> Some (((a * 16 + b) * 16 + c) * 16 + d)
      | _ \<Rightarrow> None)"

fun parseString :: "string \<Rightarrow> (string \<times> string) option" where
  "parseString [] = None"
| "parseString (c # cs) =
     (if c = dquote then Some ([], cs)
      else if c = bslash then
        (case cs of
           [] \<Rightarrow> None
         | e # r \<Rightarrow>
             if e = CHR ''u'' then
               (case r of
                  h1 # h2 # h3 # h4 # r' \<Rightarrow>
                    (case hex4 h1 h2 h3 h4 of
                       Some n \<Rightarrow>
                         if n < 256 then
                           (case parseString r' of
                              Some (s, t) \<Rightarrow> Some (char_of n # s, t)
                            | None \<Rightarrow> None)
                         else None
                     | None \<Rightarrow> None)
                | _ \<Rightarrow> None)
             else
               (case unescape e of
                  Some ch \<Rightarrow>
                    (case parseString r of Some (s, t) \<Rightarrow> Some (ch # s, t) | None \<Rightarrow> None)
                | None \<Rightarrow> None))
      else (case parseString cs of Some (s, t) \<Rightarrow> Some (c # s, t) | None \<Rightarrow> None))"

definition expect :: "string \<Rightarrow> string \<Rightarrow> string option" where
  "expect p s = (if prefix p s then Some (drop (length p) s) else None)"

definition parseValue :: "string \<Rightarrow> (string option \<times> string) option" where
  "parseValue s =
     (case expect ''null'' s of
        Some t \<Rightarrow> Some (None, t)
      | None \<Rightarrow>
          (case expect [dquote] s of
             Some t \<Rightarrow> (case parseString t of Some (v, u) \<Rightarrow> Some (Some v, u) | None \<Rightarrow> None)
           | None \<Rightarrow> None))"

definition parseField :: "string \<Rightarrow> string \<Rightarrow> (string \<times> string) option" where
  "parseField k s =
     (case expect (jsonKey k @ [dquote]) s of
        Some t \<Rightarrow> parseString t
      | None \<Rightarrow> None)"

definition JSON_parse :: "string \<Rightarrow> SessionData option" where
  "JSON_parse s =
     (case expect ''{'' s of None \<Rightarrow> None | Some s1 \<Rightarrow>
     (case parseField ''botId'' s1 of None \<Rightarrow> None | Some (b, s2) \<Rightarrow>
     (case expect '','' s2 of None \<Rightarrow> None | Some s3 \<Rightarrow>
     (case parseField ''botName'' s3 of None \<Rightarrow> None | Some (n, s4) \<Rightarrow>
     (case expect '','' s4 of None \<Rightarrow> None | Some s5 \<Rightarrow>
     (case parseField ''userId'' s5 of None \<Rightarrow> None | Some (u, s6) \<Rightarrow>
     (case expect ('','' @ jsonKey ''channelId'') s6 of None \<Rightarrow> None | Some s7 \<Rightarrow>
     (case parseValue s7 of None \<Rightarrow> None | Some (c, s8) \<Rightarrow>
        if s8 = ''}'' then Some \<lparr>sd_botId = b, sd_botName = n, sd_userId = u, sd_channelId = c\<rparr>
        else None))))))))"

definition decodeSessionId :: "string \<Rightarrow> SessionData option" where
  "decodeSessionId s = (case fromBase64 s of Some js \<Rightarrow> JSON_parse js | None \<Rightarrow> None)"



section \<open>The orchestrator\<close>

text \<open>
  The message a bot-authored trigger answers (lines 224-244): the referenced message from
  the cache or fetched, else the message just before; \<open>None\<close> when the \<open>catch\<close> returns.
\<close>

definition resolveUserMessage :: "Platform \<Rightarrow> Snowflake \<Rightarrow> Message \<Rightarrow> Message option" where
  "resolveUserMessage platform botId message =
     (if author_id message \<noteq> botId then Some message
      else
        (let referenced =
               (case reference_messageId message of
                  Some rid \<Rightarrow>
                    if rid \<noteq> [] then
                      (case messages_cache_get platform rid of
                         Some m \<Rightarrow> Some m
                       | None \<Rightarrow>
                           (case fetchReference platform of Inr m \<Rightarrow> Some m | Inl e \<Rightarrow> None))
                    else None
                | None \<Rightarrow> None)
         in case referenced of
              Some m \<Rightarrow> Some m
            | None \<Rightarrow>
                (case messages_fetch platform 1 (message_id message) of
                   Inl e \<Rightarrow> None
                 | Inr [] \<Rightarrow> None
                 | Inr (m # ms) \<Rightarrow> Some m)))"

text \<open>
  The delivery (lines 261-274): \<open>try\<close> the reply or the send, \<open>catch\<close> with the fallback
  reply, \<open>finally\<close> stop the timer.
\<close>

definition deliver ::
  "Platform \<Rightarrow> Message \<Rightarrow> bool \<Rightarrow> BaseMessageOptions \<Rightarrow> World \<Rightarrow> unit result \<times> World" where
  "deliver platform userMessage asReply payload w =
     (let cleared = w\<lparr>typingIntervals := typingIntervals w - 1\<rparr>
      in case (if asReply then reply platform userMessage payload
               else send platform payload) of
           Inr u \<Rightarrow> (Inr (), cleared)
         | Inl e \<Rightarrow>
             (case reply platform userMessage
                     (Content ''Beep boop, something went wrong. Please contact the owner.'') of
                Inr u \<Rightarrow> (Inr (), cleared)
              | Inl e' \<Rightarrow> (Inl e', cleared)))"

text \<open>
  \<open>processConversation\<close> (lines 203-275). The result says whether the handler returned
  or rejected, and gives the state it leaves.
\<close>

definition processConversation ::
  "Platform \<Rightarrow> Client \<Rightarrow> int \<Rightarrow> Message \<Rightarrow> bool \<Rightarrow> World \<Rightarrow> unit result \<times> World" where
  "processConversation platform client now message asReply w =
     (if \<not> isSendable platform then (Inr (), w)
      else
        (let botCfg = botConfig client;
             botId = client_user_id client;
             ch = channel message
         in case ephemeralFetchConversation platform client now message (convLength botCfg) 5000 w of
              (Inl e, w1) \<Rightarrow> (Inl e, w1)
            | (Inr conversation, w1) \<Rightarrow>
                (case sendTyping platform of
                   Inl e \<Rightarrow> (Inl e, w1)
                 | Inr u \<Rightarrow>
                     (let w2 = w1\<lparr>typingIntervals := typingIntervals w1 + 1\<rparr>
                      in case resolveUserMessage platform botId message of
                           None \<Rightarrow> (Inr (), w2)
                         | Some userMessage \<Rightarrow>
                             (case getDisplayName platform botId (guildId ch) of
                                Inl e \<Rightarrow> (Inl e, w2)
                              | Inr botName \<Rightarrow>
                                  (let sessionId =
                                         encodeSessionId (buildSessionData botId botName userMessage ch)
                                   in case callLLM (inferEndpoint platform) botCfg conversation sessionId of
                                        Inl e \<Rightarrow> (Inl e, w2)
                                      | Inr RateLimited \<Rightarrow> (Inr (), w2)
                                      | Inr (Success payload) \<Rightarrow>
                                          deliver platform userMessage asReply payload w2))))))"

section \<open>Sample data\<close>

text \<open>Concrete inputs, used where a statement is evaluated.\<close>

definition sample_channel :: Channel where
  "sample_channel =
     \<lparr>channel_id = ''chan'', channel_kind = GuildTextChannel, parentId = None,
      guildId = Some ''guild'', topic = None,
      permissionsFor = Some [ViewChannel, SendMessages, ReadMessageHistory],
      sendable = True, joined = False\<rparr>"

definition sample_post :: "Channel \<Rightarrow> Snowflake \<Rightarrow> bool \<Rightarrow> MessageType \<Rightarrow> string \<Rightarrow> Message" where
  "sample_post ch author isBot ty txt =
     \<lparr>message_id = ''1001'', message_type = ty, author_id = author, author_bot = isBot,
      author_username = author, content = txt, embeds = [], createdTimestamp = 0,
      createdAt = ''2025-01-01T00:00:00.000Z'', mentions_users = [], mentions_roles = [],
      mentions_channels = [], mentions_everyone = False, channel = ch,
      reference_messageId = None\<rparr>"

definition sample_config :: BotConfig where
  "sample_config =
     \<lparr>bot_config_id = ''1'', inferUrl = ''https://llm.example/api'', apiKey = None,
      sessionHeaderName = None, convLength = 0, respondTo = None, respondAsReply = False,
      customFields = []\<rparr>"

definition sample_client :: Client where
  "sample_client = \<lparr>client_user_id = ''me'', botConfig = sample_config\<rparr>"

definition sample_platform :: "HttpOutcome \<Rightarrow> Platform" where
  "sample_platform outcome =
     \<lparr>messages_fetch = (\<lambda>limit before. Inr []),
      getDisplayName = (\<lambda>userId gid. Inr userId),
      nowISO = ''2025-01-01T00:00:05.000Z'',
      isSendable = True,
      sendTyping = Inr (),
      messages_cache_get = (\<lambda>rid. None),
      fetchReference = Inl ''Unknown Message'',
      reply = (\<lambda>userMessage payload. Inr ()),
      send = (\<lambda>payload. Inr ()),
      inferEndpoint = (\<lambda>req. outcome)\<rparr>"

definition sample_world :: World where
  "sample_world = \<lparr>channelCache = [], fetches = 0, typingIntervals = 0\<rparr>"

definition sample_line :: "string \<Rightarrow> ConversationMessage" where
  "sample_line txt = \<lparr>username = ''u1'', msg_text = txt, timestamp = None\<rparr>"

definition sample_request :: "string \<Rightarrow> Request" where
  "sample_request txt =
     \<lparr>url = ''https://llm.example/api'', body = [(''message'', TextValue txt)],
      headers = [(''Authorization'', ''Bearer undefined''), (''Content-Type'', ''application/json'')]\<rparr>"

definition sample_failure :: LLMResponse where
  "sample_failure = JsonObject (Some False) None (Some ''quota exceeded'') ''{}''"

section \<open>Properties of the loop guard and of the response decision\<close>









text \<open>
  When the deciding bot is itself one of the two bots of a ping-pong, its own messages
  leave the table alone and the other bot's messages never differ from the last recorded
  author: the count stays at 0 and the guard stops the handler at the bot's own messages
  only.
\<close>

lemma guard_own_message:
  "author_bot m \<Longrightarrow> author_id m = botId \<Longrightarrow> botLoopGuard botId now tbl m = (True, tbl)"
  by (simp add: botLoopGuard_def)

lemma guard_same_author:
  assumes "author_bot m" "author_id m \<noteq> botId" "channel_id (channel m) = c"
    "tbl c = Some \<lparr>chainCount = 0, lastBotId = author_id m, lastActivity = t0\<rparr>"
  shows "botLoopGuard botId now tbl m
    = (False, tbl(c \<mapsto> \<lparr>chainCount = 0, lastBotId = author_id m, lastActivity = now\<rparr>))"
  using assms by (simp add: botLoopGuard_def Let_def)

lemma ping_pong_with_self:
  assumes bots: "author_bot m1" "author_bot m2" "author_bot m3" "author_bot m4" "author_bot m5"
    and authors: "author_id m1 = A" "author_id m2 = botId" "author_id m3 = A"
      "author_id m4 = botId" "author_id m5 = A"
    and other: "A \<noteq> botId"
    and chan: "channel_id (channel m1) = c" "channel_id (channel m3) = c"
      "channel_id (channel m5) = c"
    and start: "tbl0 c = None"
  shows "guardRun botId tbl0 [(t1, m1), (t2, m2), (t3, m3), (t4, m4), (t5, m5)]
     = ([False, True, False, True, False],
        tbl0(c \<mapsto> \<lparr>chainCount = 0, lastBotId = A, lastActivity = t5\<rparr>))"
proof -
  let ?e1 = "\<lparr>chainCount = 0, lastBotId = A, lastActivity = t1\<rparr>"
  let ?e3 = "\<lparr>chainCount = 0, lastBotId = A, lastActivity = t3\<rparr>"
  let ?e5 = "\<lparr>chainCount = 0, lastBotId = A, lastActivity = t5\<rparr>"
  have s1: "botLoopGuard botId t1 tbl0 m1 = (False, tbl0(c \<mapsto> ?e1))"
    using bots(1) authors(1) other chan(1) start by (simp add: botLoopGuard_def Let_def)
  have s2: "botLoopGuard botId t2 (tbl0(c \<mapsto> ?e1)) m2 = (True, tbl0(c \<mapsto> ?e1))"
    using guard_own_message [OF bots(2) authors(2)] .
  have s3: "botLoopGuard botId t3 (tbl0(c \<mapsto> ?e1)) m3 = (False, tbl0(c \<mapsto> ?e3))"
    using guard_same_author [where m = m3 and botId = botId and c = c
        and tbl = "tbl0(c \<mapsto> ?e1)" and ?t0.0 = t1 and now = t3]
      bots(3) authors(3) other chan(2) by simp
  have s4: "botLoopGuard botId t4 (tbl0(c \<mapsto> ?e3)) m4 = (True, tbl0(c \<mapsto> ?e3))"
    using guard_own_message [OF bots(4) authors(4)] .
  have s5: "botLoopGuard botId t5 (tbl0(c \<mapsto> ?e3)) m5 = (False, tbl0(c \<mapsto> ?e5))"
    using guard_same_author [where m = m5 and botId = botId and c = c
        and tbl = "tbl0(c \<mapsto> ?e3)" and ?t0.0 = t3 and now = t5]
      bots(5) authors(5) other chan(3) by simp
  show ?thesis by (simp only: guardRun.simps s1 s2 s3 s4 s5 prod.case)
qed

text \<open>
  C4 (as amended). A message whose author is not a bot leaves the whole chain table as
  it is, in the guard block, in both variants of \<open>shouldRespond\<close> and in the gate of the
  earlier manager, and the guard does not stop the handler for it; so the guard treats
  the next message exactly as if the human message had not arrived.
\<close>

theorem human_message_keeps_chain:
  assumes "\<not> author_bot human"
  shows "botLoopGuard botId now tbl human = (False, tbl)
       \<and> snd (shouldRespond client now dn tbl human) = tbl
       \<and> snd (shouldRespond_eventHandler client now dn tbl human) = tbl
       \<and> handleMessageCreate_gate botId tbl human = (False, tbl)
       \<and> botLoopGuard botId later (snd (botLoopGuard botId now tbl human)) next_message
           = botLoopGuard botId later tbl next_message"
  using assms
  by (simp add: botLoopGuard_def shouldRespond_def shouldRespond_eventHandler_def
      handleMessageCreate_gate_def)

theorem human_message_keeps_chain_witness:
  "\<not> author_bot (sample_post sample_channel ''u1'' False Default ''hi'')
   \<and> botLoopGuard ''me'' 2000
       [''chan'' \<mapsto> \<lparr>chainCount = 2, lastBotId = ''botA'', lastActivity = 1000\<rparr>]
       (sample_post sample_channel ''u1'' False Default ''hi'')
     = (False, [''chan'' \<mapsto> \<lparr>chainCount = 2, lastBotId = ''botA'', lastActivity = 1000\<rparr>])"
  using human_message_keeps_chain [where human = "sample_post sample_channel ''u1'' False Default ''hi''"
      and botId = "''me''" and now = 2000
      and tbl = "[''chan'' \<mapsto> \<lparr>chainCount = 2, lastBotId = ''botA'', lastActivity = 1000\<rparr>]"]
  by (simp add: sample_post_def)

text \<open>
  Against C4 as stated: with a chain of count 2 recorded for the channel, a human message
  leaves the entry in place (the count is not back at zero), and the next message of the
  other bot, one second later, is stopped by the guard.
\<close>

theorem human_message_does_not_clear_chain:
  "snd (shouldRespond sample_client 2000 (Inr ''Helper'')
          [''chan'' \<mapsto> \<lparr>chainCount = 2, lastBotId = ''botA'', lastActivity = 1000\<rparr>]
          (sample_post sample_channel ''u1'' False Default ''hi'')) ''chan''
     = Some \<lparr>chainCount = 2, lastBotId = ''botA'', lastActivity = 1000\<rparr>
   \<and> fst (botLoopGuard ''me'' 3000
          (snd (botLoopGuard ''me'' 2000
             [''chan'' \<mapsto> \<lparr>chainCount = 2, lastBotId = ''botA'', lastActivity = 1000\<rparr>]
             (sample_post sample_channel ''u1'' False Default ''hi'')))
          (sample_post sample_channel ''botB'' True Default ''pong''))"
  by (simp add: shouldRespond_def botLoopGuard_def sample_post_def sample_channel_def
      sample_client_def Let_def)




text \<open>
  C8, on \<open>shouldRespond\<close> of \<open>src/eventHandler.ts\<close>: \<open>respondTo\<close> unset, a guild text
  channel, no mention of any kind, a human author; the text contains the bot's display
  name, and the decision is to respond.
\<close>

theorem name_trigger_without_respondTo:
  "respondTo (botConfig sample_client) = None
   \<and> fst (shouldRespond_eventHandler sample_client 1000 (Inr ''Helper'') Map.empty
        (sample_post sample_channel ''u1'' False Default ''hello helper bot'')) = Inr True"
  by code_simp

lemma mention_only_policy:
  assumes "respondTo (botConfig client) = None"
    and "mentions_users m = []" "mentions_roles m = []" "mentions_channels m = []"
    and "\<not> mentions_everyone m"
    and "channel_kind (channel m) = GuildTextChannel"
  shows "fst (shouldRespond client now dn tbl m) = Inr False"
  using assms
  by (auto simp: shouldRespond_def respondPolicy_def isDMBased_def isThread_def Let_def
      split: prod.splits option.splits bool.splits)

section \<open>Properties of the inference client\<close>

lemma buildRequest_nonempty:
  "conversation \<noteq> [] \<Longrightarrow> \<exists>req. buildRequest botCfg conversation sessionId = Inr req"
  by (cases conversation) (simp_all add: buildRequest_def requestBody_def)

lemma parse_throw_caught:
  "parseLLMResponse d = Inl e \<Longrightarrow> callLLM_catch e = Inl ''Failed to get response from LLM''"
  by (induction d rule: parseLLMResponse.induct) (auto simp: callLLM_catch_def)

lemma parse_returns_success:
  "parseLLMResponse d = Inr r \<Longrightarrow> \<exists>p. r = Success p"
  by (induction d rule: parseLLMResponse.induct) auto

lemma callLLM_on_response:
  assumes "conversation \<noteq> []"
    and "buildRequest botCfg conversation sessionId = Inr req"
    and "endpoint req = Response status d"
  shows "callLLM endpoint botCfg conversation sessionId =
     (if status = 200 then
        (case parseLLMResponse d of
           Inr r \<Rightarrow> Inr r
         | Inl e \<Rightarrow> Inl ''Failed to get response from LLM'')
      else if 200 \<le> status \<and> status < 300 then Inl ''Failed to get response from LLM''
      else if status = 429 then Inr RateLimited
      else (case data_error d of
              Some x \<Rightarrow> if x \<noteq> [] then Inl x else Inl ''Failed to get response from LLM''
            | None \<Rightarrow> Inl ''Failed to get response from LLM''))"
proof (cases "status = 200")
  case True
  then show ?thesis
    using assms
    by (auto simp: callLLM_def callLLM_try_def axios_post_def parse_throw_caught split: sum.splits)
next
  case False
  then show ?thesis
    using assms
    by (auto simp: callLLM_def callLLM_try_def axios_post_def callLLM_catch_def split: option.splits)
qed

lemma callLLM_no_response:
  assumes "conversation \<noteq> []"
    and "buildRequest botCfg conversation sessionId = Inr req"
    and "endpoint req = NoResponse"
  shows "callLLM endpoint botCfg conversation sessionId = Inl ''Failed to get response from LLM''"
  using assms by (auto simp: callLLM_def callLLM_try_def axios_post_def callLLM_catch_def)

lemma callLLM_empty:
  "callLLM endpoint botCfg [] sessionId = Inl ''Failed to get response from LLM''"
  by (simp add: callLLM_def callLLM_try_def callLLM_catch_def)

lemma sample_request_built:
  "buildRequest sample_config [sample_line txt] sid = Inr (sample_request txt)"
  by (simp add: buildRequest_def requestBody_def requestHeaders_def spread_def sample_config_def
      sample_line_def sample_request_def)

text \<open>
  C6. A call with a non-empty conversation sends its request. If the endpoint answers
  with status 429, \<open>callLLM\<close> returns \<open>RateLimited\<close>; if it answers with any other status
  that is not 200, or with status 200 and a body whose \<open>success\<close> is false, or does not
  answer, \<open>callLLM\<close> throws; and \<open>RateLimited\<close> is returned for a 429 answer only.
\<close>

theorem rate_limit_is_the_returned_failure:
  assumes "conversation \<noteq> []"
    and "buildRequest botCfg conversation sessionId = Inr req"
  shows "(\<forall>d. endpoint req = Response 429 d
            \<longrightarrow> callLLM endpoint botCfg conversation sessionId = Inr RateLimited)
       \<and> (\<forall>status d. endpoint req = Response status d \<and> status \<noteq> 429
              \<and> (status \<noteq> 200 \<or> (\<exists>r e js. d = JsonObject (Some False) r e js))
            \<longrightarrow> (\<exists>msg. callLLM endpoint botCfg conversation sessionId = Inl msg))
       \<and> (endpoint req = NoResponse
            \<longrightarrow> (\<exists>msg. callLLM endpoint botCfg conversation sessionId = Inl msg))
       \<and> (callLLM endpoint botCfg conversation sessionId = Inr RateLimited
            \<longrightarrow> (\<exists>d. endpoint req = Response 429 d))"
proof -
  note on_response = callLLM_on_response [of conversation botCfg sessionId req endpoint, OF assms]
  have a: "callLLM endpoint botCfg conversation sessionId = Inr RateLimited"
    if "endpoint req = Response 429 d" for d
    using on_response [OF that] by simp
  have b: "\<exists>msg. callLLM endpoint botCfg conversation sessionId = Inl msg"
    if "endpoint req = Response status d" "status \<noteq> 429"
      "status \<noteq> 200 \<or> (\<exists>r e js. d = JsonObject (Some False) r e js)" for status d
    using on_response [OF that(1)] that(2,3) by (auto split: option.splits)
  have c: "\<exists>msg. callLLM endpoint botCfg conversation sessionId = Inl msg"
    if "endpoint req = NoResponse"
    using callLLM_no_response [where endpoint = endpoint, OF assms that] by simp
  have d: "\<exists>d. endpoint req = Response 429 d"
    if rl: "callLLM endpoint botCfg conversation sessionId = Inr RateLimited"
  proof (cases "endpoint req")
    case NoResponse
    with c rl show ?thesis by simp
  next
    case (Response status d)
    have "status = 429"
      using on_response [OF Response] rl parse_returns_success [of d]
      by (auto split: sum.splits option.splits if_splits)
    with Response show ?thesis by simp
  qed
  from a b c d show ?thesis by blast
qed

theorem rate_limit_is_the_returned_failure_witness:
  "callLLM (\<lambda>req. Response 429 (RawText ''slow down'')) sample_config [sample_line ''hello''] ''sid''
     = Inr RateLimited
   \<and> (\<exists>msg. callLLM (\<lambda>req. Response 500 (RawText ''oops'')) sample_config
               [sample_line ''hello''] ''sid'' = Inl msg)"
proof -
  have ne: "[sample_line ''hello''] \<noteq> []" by simp
  note built = sample_request_built [of "''hello''" "''sid''"]
  from rate_limit_is_the_returned_failure [OF ne built,
      where endpoint = "\<lambda>req. Response 429 (RawText ''slow down'')"]
  have a: "callLLM (\<lambda>req. Response 429 (RawText ''slow down'')) sample_config
      [sample_line ''hello''] ''sid'' = Inr RateLimited"
    by simp
  from rate_limit_is_the_returned_failure [OF ne built,
      where endpoint = "\<lambda>req. Response 500 (RawText ''oops'')"]
  have b: "\<exists>msg. callLLM (\<lambda>req. Response 500 (RawText ''oops'')) sample_config
               [sample_line ''hello''] ''sid'' = Inl msg"
    by simp
  from a b show ?thesis by blast
qed




section \<open>Properties of the conversation cache\<close>

lemma cache_hit:
  assumes "map_of (channelCache w) (channel_id (channel message)) = Some entry"
    and "now - lastFetchTime entry < cacheDurationMs"
  shows "ephemeralFetchConversation platform client now message limit cacheDurationMs w
     = (Inr (messages entry), w)"
  using assms by (simp add: ephemeralFetchConversation_def)

lemma cache_store:
  assumes "0 \<le> cacheDurationMs"
  shows "map_of (let cache1 = AList.update k \<lparr>lastFetchTime = now, messages = msgs\<rparr> cache
                 in if length cache1 > 1000
                    then filter (\<lambda>(key, v). \<not> lastFetchTime v < now - cacheDurationMs) cache1
                    else cache1) k
           = Some \<lparr>lastFetchTime = now, messages = msgs\<rparr>"
proof -
  let ?e = "\<lparr>lastFetchTime = now, messages = msgs\<rparr>"
  let ?c1 = "AList.update k ?e cache"
  have m1: "map_of ?c1 k = Some ?e"
    by (simp add: update_conv')
  have "map_of (filter (\<lambda>(key, v). \<not> lastFetchTime v < now - cacheDurationMs) ?c1) k = Some ?e"
    using map_of_filter_in [OF m1, of "\<lambda>key v. \<not> lastFetchTime v < now - cacheDurationMs"] assms
    by simp
  with m1 show ?thesis by (simp add: Let_def)
qed

lemma cache_miss:
  assumes stale: "\<forall>entry. map_of (channelCache w) (channel_id (channel message)) = Some entry
             \<longrightarrow> cacheDurationMs \<le> now - lastFetchTime entry"
    and up: "fetchConversationFromDiscord platform client message limit = Inr msgs"
    and dur: "0 \<le> cacheDurationMs"
  shows "\<exists>w'. ephemeralFetchConversation platform client now message limit cacheDurationMs w
                 = (Inr msgs, w')
     \<and> fetches w' = fetches w + 1
     \<and> map_of (channelCache w') (channel_id (channel message))
         = Some \<lparr>lastFetchTime = now, messages = msgs\<rparr>"
proof (cases "map_of (channelCache w) (channel_id (channel message))")
  case None
  then show ?thesis
    using up cache_store [OF dur, of "channel_id (channel message)" now msgs "channelCache w"]
    by (simp add: ephemeralFetchConversation_def Let_def)
next
  case (Some entry)
  with stale have "\<not> now - lastFetchTime entry < cacheDurationMs" by auto
  with Some show ?thesis
    using up cache_store [OF dur, of "channel_id (channel message)" now msgs "channelCache w"]
    by (simp add: ephemeralFetchConversation_def Let_def)
qed

lemma cache_fetched_upstream:
  assumes run: "ephemeralFetchConversation platform client now message limit cacheDurationMs w
           = (Inr msgs, w1)"
    and counted: "fetches w1 = fetches w + 1"
    and dur: "0 \<le> cacheDurationMs"
  shows "map_of (channelCache w1) (channel_id (channel message))
           = Some \<lparr>lastFetchTime = now, messages = msgs\<rparr>"
proof -
  let ?k = "channel_id (channel message)"
  have nohit: "\<not> (\<exists>entry. map_of (channelCache w) ?k = Some entry
                   \<and> now - lastFetchTime entry < cacheDurationMs)"
  proof
    assume "\<exists>entry. map_of (channelCache w) ?k = Some entry
              \<and> now - lastFetchTime entry < cacheDurationMs"
    then obtain entry where "map_of (channelCache w) ?k = Some entry"
      "now - lastFetchTime entry < cacheDurationMs" by blast
    from cache_hit [OF this, of platform client limit] run have "w1 = w" by simp
    with counted show False by simp
  qed
  then have stale: "\<forall>entry. map_of (channelCache w) ?k = Some entry
             \<longrightarrow> cacheDurationMs \<le> now - lastFetchTime entry"
    by auto
  have up: "fetchConversationFromDiscord platform client message limit = Inr msgs"
    using run nohit
    by (auto simp: ephemeralFetchConversation_def Let_def split: option.splits sum.splits if_splits)
  from cache_miss [OF stale up dur] run show ?thesis by auto
qed

text \<open>
  C7 (as amended), for a non-negative \<open>cacheDurationMs\<close>. (1) A fetch issued less than
  \<open>cacheDurationMs\<close> after the \<open>lastFetchTime\<close> of the channel's entry returns the entry's
  sequence and changes nothing: no upstream fetch. (2) When a fetch returned a sequence
  and made the upstream fetch, a fetch for the same channel issued less than
  \<open>cacheDurationMs\<close> later returns that same sequence and makes no upstream fetch.
  (3) A fetch issued when the channel has no entry, or an entry at least
  \<open>cacheDurationMs\<close> old, makes the upstream fetch and, when that succeeds, returns its
  sequence and stores it with the time of the call.
\<close>

theorem cache_ttl_from_last_upstream_fetch:
  assumes dur: "0 \<le> cacheDurationMs"
  shows "(\<forall>entry. map_of (channelCache w) (channel_id (channel message)) = Some entry
              \<and> now - lastFetchTime entry < cacheDurationMs
            \<longrightarrow> ephemeralFetchConversation platform client now message limit cacheDurationMs w
                  = (Inr (messages entry), w))
       \<and> (\<forall>msgs w1. ephemeralFetchConversation platform client now message limit cacheDurationMs w
                  = (Inr msgs, w1)
              \<and> fetches w1 = fetches w + 1
              \<and> channel_id (channel message') = channel_id (channel message)
              \<and> later - now < cacheDurationMs
            \<longrightarrow> ephemeralFetchConversation platform' client' later message' limit' cacheDurationMs w1
                  = (Inr msgs, w1))
       \<and> (\<forall>msgs. (\<forall>entry. map_of (channelCache w) (channel_id (channel message)) = Some entry
                      \<longrightarrow> cacheDurationMs \<le> now - lastFetchTime entry)
              \<and> fetchConversationFromDiscord platform client message limit = Inr msgs
            \<longrightarrow> (\<exists>w'. ephemeralFetchConversation platform client now message limit cacheDurationMs w
                         = (Inr msgs, w')
                      \<and> fetches w' = fetches w + 1
                      \<and> map_of (channelCache w') (channel_id (channel message))
                          = Some \<lparr>lastFetchTime = now, messages = msgs\<rparr>))"
proof -
  have one: "ephemeralFetchConversation platform client now message limit cacheDurationMs w
                  = (Inr (messages entry), w)"
    if "map_of (channelCache w) (channel_id (channel message)) = Some entry"
      "now - lastFetchTime entry < cacheDurationMs" for entry
    using cache_hit [OF that] .
  have two: "ephemeralFetchConversation platform' client' later message' limit' cacheDurationMs w1
                  = (Inr msgs, w1)"
    if run: "ephemeralFetchConversation platform client now message limit cacheDurationMs w
                  = (Inr msgs, w1)"
      and counted: "fetches w1 = fetches w + 1"
      and same: "channel_id (channel message') = channel_id (channel message)"
      and close: "later - now < cacheDurationMs" for msgs w1
  proof -
    have "map_of (channelCache w1) (channel_id (channel message'))
           = Some \<lparr>lastFetchTime = now, messages = msgs\<rparr>"
      using cache_fetched_upstream [OF run counted dur] same by simp
    from cache_hit [OF this, of later cacheDurationMs platform' client' limit'] close
    show ?thesis by simp
  qed
  have three: "\<exists>w'. ephemeralFetchConversation platform client now message limit cacheDurationMs w
                         = (Inr msgs, w')
                      \<and> fetches w' = fetches w + 1
                      \<and> map_of (channelCache w') (channel_id (channel message))
                          = Some \<lparr>lastFetchTime = now, messages = msgs\<rparr>"
    if "\<forall>entry. map_of (channelCache w) (channel_id (channel message)) = Some entry
                      \<longrightarrow> cacheDurationMs \<le> now - lastFetchTime entry"
      "fetchConversationFromDiscord platform client message limit = Inr msgs" for msgs
    using cache_miss [OF that dur] .
  from one two three show ?thesis by blast
qed

theorem cache_ttl_from_last_upstream_fetch_witness:
  "ephemeralFetchConversation (sample_platform NoResponse) sample_client 1000
       (sample_post sample_channel ''u1'' False Default ''first'') 0 5000 sample_world
     = (Inr [\<lparr>username = ''u1'', msg_text = ''first'',
               timestamp = Some ''2025-01-01T00:00:00.000Z''\<rparr>],
        \<lparr>channelCache = [(''chan'', \<lparr>lastFetchTime = 1000,
            messages = [\<lparr>username = ''u1'', msg_text = ''first'',
               timestamp = Some ''2025-01-01T00:00:00.000Z''\<rparr>]\<rparr>)],
         fetches = 1, typingIntervals = 0\<rparr>)
   \<and> ephemeralFetchConversation (sample_platform NoResponse) sample_client 3000
       (sample_post sample_channel ''u2'' False Default ''second'') 0 5000
        \<lparr>channelCache = [(''chan'', \<lparr>lastFetchTime = 1000,
            messages = [\<lparr>username = ''u1'', msg_text = ''first'',
               timestamp = Some ''2025-01-01T00:00:00.000Z''\<rparr>]\<rparr>)],
         fetches = 1, typingIntervals = 0\<rparr>
     = (Inr [\<lparr>username = ''u1'', msg_text = ''first'',
               timestamp = Some ''2025-01-01T00:00:00.000Z''\<rparr>],
        \<lparr>channelCache = [(''chan'', \<lparr>lastFetchTime = 1000,
            messages = [\<lparr>username = ''u1'', msg_text = ''first'',
               timestamp = Some ''2025-01-01T00:00:00.000Z''\<rparr>]\<rparr>)],
         fetches = 1, typingIntervals = 0\<rparr>)"
proof -
  let ?line = "\<lparr>username = ''u1'', msg_text = ''first'',
               timestamp = Some ''2025-01-01T00:00:00.000Z''\<rparr>"
  let ?w1 = "\<lparr>channelCache = [(''chan'', \<lparr>lastFetchTime = 1000, messages = [?line]\<rparr>)],
         fetches = 1, typingIntervals = 0\<rparr>"
  let ?m1 = "sample_post sample_channel ''u1'' False Default ''first''"
  let ?m2 = "sample_post sample_channel ''u2'' False Default ''second''"
  have run: "ephemeralFetchConversation (sample_platform NoResponse) sample_client 1000 ?m1 0 5000
       sample_world = (Inr [?line], ?w1)"
    by code_simp
  have counted: "fetches ?w1 = fetches sample_world + 1"
    by (simp add: sample_world_def)
  have same: "channel_id (channel ?m2) = channel_id (channel ?m1)"
    by (simp add: sample_post_def)
  have dur: "(0::int) \<le> 5000" and close: "(3000::int) - 1000 < 5000" by simp_all
  from cache_ttl_from_last_upstream_fetch [OF dur, where w = sample_world and message = ?m1
      and now = 1000 and platform = "sample_platform NoResponse" and client = sample_client
      and limit = 0 and message' = ?m2 and later = 3000
      and platform' = "sample_platform NoResponse" and client' = sample_client and limit' = 0]
    run counted same close
  have "ephemeralFetchConversation (sample_platform NoResponse) sample_client 3000 ?m2 0 5000 ?w1
      = (Inr [?line], ?w1)"
    by blast
  with run show ?thesis by blast
qed

text \<open>
  Against C7 as stated: the channel's entry was fetched at time 0. A fetch at 4000 is
  served from the cache; a fetch at 6000, less than 5000 ms after the one at 4000, is not:
  it makes an upstream fetch and returns another sequence.
\<close>

theorem cache_two_close_fetches_differ:
  "ephemeralFetchConversation (sample_platform NoResponse) sample_client 4000
       (sample_post sample_channel ''u1'' False Default ''second'') 0 5000
       \<lparr>channelCache = [(''chan'', \<lparr>lastFetchTime = 0, messages = [sample_line ''first'']\<rparr>)],
        fetches = 1, typingIntervals = 0\<rparr>
     = (Inr [sample_line ''first''],
        \<lparr>channelCache = [(''chan'', \<lparr>lastFetchTime = 0, messages = [sample_line ''first'']\<rparr>)],
         fetches = 1, typingIntervals = 0\<rparr>)
   \<and> ephemeralFetchConversation (sample_platform NoResponse) sample_client 6000
       (sample_post sample_channel ''u1'' False Default ''third'') 0 5000
       \<lparr>channelCache = [(''chan'', \<lparr>lastFetchTime = 0, messages = [sample_line ''first'']\<rparr>)],
        fetches = 1, typingIntervals = 0\<rparr>
     = (Inr [\<lparr>username = ''u1'', msg_text = ''third'',
              timestamp = Some ''2025-01-01T00:00:00.000Z''\<rparr>],
        \<lparr>channelCache = [(''chan'', \<lparr>lastFetchTime = 6000,
            messages = [\<lparr>username = ''u1'', msg_text = ''third'',
              timestamp = Some ''2025-01-01T00:00:00.000Z''\<rparr>]\<rparr>)],
         fetches = 2, typingIntervals = 0\<rparr>)
   \<and> (6000::int) - 4000 < 5000"
  by code_simp

section \<open>Properties of the request shape\<close>

lemma loadBotConfig_messageLimit_positive:
  "loadBotConfig_messageLimit parseInt env = Some n \<Longrightarrow> 1 \<le> n"
  by (auto simp: loadBotConfig_messageLimit_def split: option.splits)

lemma spread_lookup:
  "map_of (spread first custom) k =
     (case map_of (rev custom) k of Some v \<Rightarrow> Some (JsonValue v) | None \<Rightarrow> map_of first k)"
proof -
  have "map_of (fold (\<lambda>(k, v) b. AList.update k (JsonValue v) b) custom first) k =
     (case map_of (rev custom) k of Some v \<Rightarrow> Some (JsonValue v) | None \<Rightarrow> map_of first k)"
  proof (induction custom arbitrary: first)
    case Nil
    then show ?case by simp
  next
    case (Cons kv custom)
    obtain k' v' where kv: "kv = (k', v')" by (cases kv)
    show ?case
      by (simp add: kv Cons.IH update_conv' map_add_def split: option.splits)
  qed
  then show ?thesis by (simp add: spread_def)
qed

lemma message_mode_body:
  assumes "convLength botCfg = 0" and "conversation = first # rest"
  shows "\<exists>b. requestBody botCfg conversation = Inr b
       \<and> (''message'' \<notin> fst ` set (customFields botCfg)
            \<longrightarrow> map_of b ''message'' = Some (TextValue (msg_text first)))
       \<and> (\<forall>k c. map_of b k \<noteq> Some (ConversationValue c))"
proof -
  let ?b = "spread [(''message'', TextValue (msg_text first))] (customFields botCfg)"
  have b: "requestBody botCfg conversation = Inr ?b"
    using assms by (simp add: requestBody_def)
  have m: "map_of ?b ''message'' = Some (TextValue (msg_text first))"
    if "''message'' \<notin> fst ` set (customFields botCfg)"
  proof -
    from that have "map_of (rev (customFields botCfg)) ''message'' = None"
      by (simp add: map_of_eq_None_iff)
    then show ?thesis by (simp add: spread_lookup)
  qed
  have c: "map_of ?b k \<noteq> Some (ConversationValue c)" for k c
    by (simp add: spread_lookup split: option.splits)
  from b m c show ?thesis by blast
qed

lemma message_mode_without_topic:
  assumes "convLength botCfg = 0"
    and "author_id message \<noteq> client_user_id client"
    and "topic (channel message) = None \<or> topic (channel message) = Some []"
    and "getDisplayName platform (author_id message)
           (if \<not> isDMBased (channel message) then guildId (channel message) else None) = Inr name"
  shows "fetchConversationFromDiscord platform client message 0
           = Inr [formatMessage [author_id message \<mapsto> name] message]
       \<and> requestBody botCfg [formatMessage [author_id message \<mapsto> name] message]
           = Inr (spread [(''message'',
                    TextValue (msg_text (formatMessage [author_id message \<mapsto> name] message)))]
                  (customFields botCfg))"
  using assms
  by (auto simp: fetchConversationFromDiscord_def requestBody_def Let_def)

text \<open>
  C1, at a channel with a topic: \<open>convLength\<close> is 0 and the triggering message, written
  by a user, reads \<open>hello\<close>; the conversation fetched for it starts with the topic, and
  the request body is \<open>{ message: "Be kind" }\<close>, the topic and not the message's text.
\<close>

theorem topic_sent_as_message:
  "convLength sample_config = 0
   \<and> fetchConversationFromDiscord (sample_platform NoResponse) sample_client
        (sample_post (sample_channel\<lparr>topic := Some ''Be kind''\<rparr>) ''u1'' False Default ''hello'') 0
     = Inr [\<lparr>username = ''Channel Topic'', msg_text = ''Be kind'',
              timestamp = Some ''2025-01-01T00:00:05.000Z''\<rparr>,
            \<lparr>username = ''u1'', msg_text = ''hello'',
              timestamp = Some ''2025-01-01T00:00:00.000Z''\<rparr>]
   \<and> requestBody sample_config
        [\<lparr>username = ''Channel Topic'', msg_text = ''Be kind'',
              timestamp = Some ''2025-01-01T00:00:05.000Z''\<rparr>,
         \<lparr>username = ''u1'', msg_text = ''hello'',
              timestamp = Some ''2025-01-01T00:00:00.000Z''\<rparr>]
     = Inr [(''message'', TextValue ''Be kind'')]"
  by code_simp

section \<open>Properties of the orchestrator\<close>

lemma deliver_clears_interval:
  "typingIntervals (snd (deliver platform userMessage asReply payload w)) = typingIntervals w - 1"
  by (simp add: deliver_def Let_def split: sum.splits)

text \<open>
  C3, on three exits of \<open>processConversation\<close> taken after \<open>setInterval\<close>: the endpoint
  answers 429 and the handler returns; the endpoint answers 500 and the handler rejects;
  the trigger is the bot's own message and no message to answer is found, and the
  handler returns. Each time one typing timer is left running.
\<close>

theorem typing_interval_left_running:
  "typingIntervals sample_world = 0
   \<and> fst (processConversation (sample_platform (Response 429 (RawText ''slow down'')))
          sample_client 1000 (sample_post sample_channel ''u1'' False Default ''hello'') True
          sample_world) = Inr ()
   \<and> typingIntervals (snd (processConversation (sample_platform (Response 429 (RawText ''slow down'')))
          sample_client 1000 (sample_post sample_channel ''u1'' False Default ''hello'') True
          sample_world)) = 1
   \<and> fst (processConversation (sample_platform (Response 500 sample_failure))
          sample_client 1000 (sample_post sample_channel ''u1'' False Default ''hello'') True
          sample_world) = Inl ''quota exceeded''
   \<and> typingIntervals (snd (processConversation (sample_platform (Response 500 sample_failure))
          sample_client 1000 (sample_post sample_channel ''u1'' False Default ''hello'') True
          sample_world)) = 1
   \<and> fst (processConversation (sample_platform NoResponse)
          sample_client 1000 (sample_post sample_channel ''me'' True Default ''earlier reply'') True
          sample_world) = Inr ()
   \<and> typingIntervals (snd (processConversation (sample_platform NoResponse)
          sample_client 1000 (sample_post sample_channel ''me'' True Default ''earlier reply'') True
          sample_world)) = 1"
  by code_simp

lemma interval_left_when_rate_limited:
  assumes "isSendable platform"
    and "ephemeralFetchConversation platform client now message (convLength (botConfig client)) 5000 w
           = (Inr conversation, w1)"
    and "sendTyping platform = Inr ()"
    and "resolveUserMessage platform (client_user_id client) message = Some userMessage"
    and "getDisplayName platform (client_user_id client) (guildId (channel message)) = Inr botName"
    and "callLLM (inferEndpoint platform) (botConfig client) conversation
           (encodeSessionId (buildSessionData (client_user_id client) botName userMessage
              (channel message))) = Inr RateLimited"
  shows "processConversation platform client now message asReply w
           = (Inr (), w1\<lparr>typingIntervals := typingIntervals w1 + 1\<rparr>)"
  using assms by (simp add: processConversation_def Let_def)

lemma interval_left_when_inference_fails:
  assumes "isSendable platform"
    and "ephemeralFetchConversation platform client now message (convLength (botConfig client)) 5000 w
           = (Inr conversation, w1)"
    and "sendTyping platform = Inr ()"
    and "resolveUserMessage platform (client_user_id client) message = Some userMessage"
    and "getDisplayName platform (client_user_id client) (guildId (channel message)) = Inr botName"
    and "callLLM (inferEndpoint platform) (botConfig client) conversation
           (encodeSessionId (buildSessionData (client_user_id client) botName userMessage
              (channel message))) = Inl e"
  shows "processConversation platform client now message asReply w
           = (Inl e, w1\<lparr>typingIntervals := typingIntervals w1 + 1\<rparr>)"
  using assms by (simp add: processConversation_def Let_def)

lemma interval_left_when_name_lookup_fails:
  assumes "isSendable platform"
    and "ephemeralFetchConversation platform client now message (convLength (botConfig client)) 5000 w
           = (Inr conversation, w1)"
    and "sendTyping platform = Inr ()"
    and "resolveUserMessage platform (client_user_id client) message = Some userMessage"
    and "getDisplayName platform (client_user_id client) (guildId (channel message)) = Inl e"
  shows "processConversation platform client now message asReply w
           = (Inl e, w1\<lparr>typingIntervals := typingIntervals w1 + 1\<rparr>)"
  using assms by (simp add: processConversation_def Let_def)

lemma interval_left_when_unresolved:
  assumes "isSendable platform"
    and "ephemeralFetchConversation platform client now message (convLength (botConfig client)) 5000 w
           = (Inr conversation, w1)"
    and "sendTyping platform = Inr ()"
    and "resolveUserMessage platform (client_user_id client) message = None"
  shows "processConversation platform client now message asReply w
           = (Inr (), w1\<lparr>typingIntervals := typingIntervals w1 + 1\<rparr>)"
  using assms by (simp add: processConversation_def Let_def)

lemma interval_cleared_after_delivery:
  assumes "isSendable platform"
    and "ephemeralFetchConversation platform client now message (convLength (botConfig client)) 5000 w
           = (Inr conversation, w1)"
    and "sendTyping platform = Inr ()"
    and "resolveUserMessage platform (client_user_id client) message = Some userMessage"
    and "getDisplayName platform (client_user_id client) (guildId (channel message)) = Inr botName"
    and "callLLM (inferEndpoint platform) (botConfig client) conversation
           (encodeSessionId (buildSessionData (client_user_id client) botName userMessage
              (channel message))) = Inr (Success payload)"
  shows "typingIntervals (snd (processConversation platform client now message asReply w))
           = typingIntervals w1"
  using assms by (simp add: processConversation_def Let_def deliver_clears_interval)

section \<open>Properties of the session identity\<close>

lemma indexOf_nth:
  "distinct xs \<Longrightarrow> n < length xs \<Longrightarrow> indexOf (xs ! n) xs = Some n"
proof (induction xs arbitrary: n)
  case Nil
  then show ?case by simp
next
  case (Cons y ys)
  show ?case
  proof (cases n)
    case 0
    then show ?thesis by simp
  next
    case (Suc k)
    with Cons.prems have "k < length ys" "ys ! k \<noteq> y"
      by auto
    with Cons.IH [of k] Cons.prems Suc show ?thesis by simp
  qed
qed

lemma b64val_b64: "n < 64 \<Longrightarrow> b64val (b64 n) = Some n"
proof -
  assume n: "n < 64"
  have "distinct base64Alphabet" "length base64Alphabet = 64"
    by (simp_all add: base64Alphabet_def)
  with n show ?thesis
    by (simp add: b64val_def b64_def indexOf_nth)
qed

lemma b64_not_pad: "n < 64 \<Longrightarrow> b64 n \<noteq> CHR ''=''"
proof -
  assume "n < 64"
  moreover have "length base64Alphabet = 64"
    by (simp add: base64Alphabet_def)
  ultimately have "b64 n \<in> set base64Alphabet"
    by (simp add: b64_def)
  moreover have "CHR ''='' \<notin> set base64Alphabet"
    by (simp add: base64Alphabet_def)
  ultimately show ?thesis by auto
qed

lemma fromBase64_toBase64: "fromBase64 (toBase64 s) = Some s"
proof (induction s rule: toBase64.induct)
  case 1
  then show ?case by simp
next
  case (2 a)
  define x :: nat where "x = of_char a"
  define i where "i = x div 4"
  define j where "j = (x mod 4) * 16"
  have x: "x < 256" by (simp add: x_def)
  have bd: "i < 64" "j < 64" using x by (simp_all add: i_def j_def)
  have r: "i * 4 + j div 16 = x" "j mod 16 = 0" by (simp_all add: i_def j_def)
  have enc: "toBase64 [a] = [b64 i, b64 j, CHR ''='', CHR ''='']"
    by (simp add: i_def j_def x_def Let_def)
  have "char_of x = a" by (simp add: x_def)
  then show ?case
    unfolding enc by (simp add: b64val_b64 bd r)
next
  case (3 a b)
  define x :: nat where "x = of_char a"
  define y :: nat where "y = of_char b"
  define i where "i = x div 4"
  define j where "j = (x mod 4) * 16 + y div 16"
  define k where "k = (y mod 16) * 4"
  have x: "x < 256" and y: "y < 256" by (simp_all add: x_def y_def)
  have bd: "i < 64" "j < 64" "k < 64" using x y by (simp_all add: i_def j_def k_def)
  have r: "i * 4 + j div 16 = x" "(j mod 16) * 16 + k div 4 = y" "k mod 4 = 0"
    using y by (simp_all add: i_def j_def k_def)
  have enc: "toBase64 [a, b] = [b64 i, b64 j, b64 k, CHR ''='']"
    by (simp add: i_def j_def k_def x_def y_def Let_def)
  have "char_of x = a" "char_of y = b" by (simp_all add: x_def y_def)
  then show ?case
    unfolding enc by (simp add: b64val_b64 b64_not_pad bd r)
next
  case (4 a b c rest)
  define x :: nat where "x = of_char a"
  define y :: nat where "y = of_char b"
  define z :: nat where "z = of_char c"
  define i where "i = x div 4"
  define j where "j = (x mod 4) * 16 + y div 16"
  define k where "k = (y mod 16) * 4 + z div 64"
  define l where "l = z mod 64"
  have x: "x < 256" and y: "y < 256" and z: "z < 256" by (simp_all add: x_def y_def z_def)
  have bd: "i < 64" "j < 64" "k < 64" "l < 64"
    using x y z by (simp_all add: i_def j_def k_def l_def)
  have r: "i * 4 + j div 16 = x" "(j mod 16) * 16 + k div 4 = y" "(k mod 4) * 64 + l = z"
    using y z by (simp_all add: i_def j_def k_def l_def)
  have enc: "toBase64 (a # b # c # rest) = [b64 i, b64 j, b64 k, b64 l] @ toBase64 rest"
    by (simp add: i_def j_def k_def l_def x_def y_def z_def Let_def)
  have "char_of x = a" "char_of y = b" "char_of z = c" by (simp_all add: x_def y_def z_def)
  then show ?case
    using 4 unfolding enc by (simp add: b64val_b64 b64_not_pad bd r)
qed

lemma hexDigits_nth: "k < 16 \<Longrightarrow> hexval (hexDigits ! k) = Some k"
proof -
  assume k: "k < 16"
  have "distinct hexDigits" "length hexDigits = 16"
    by (simp_all add: hexDigits_def)
  then have "indexOf (hexDigits ! k) hexDigits = Some k"
    using k by (simp add: indexOf_nth)
  then show ?thesis by (simp add: hexval_def)
qed

lemma hexval_zero: "hexval CHR ''0'' = Some 0"
  by (simp add: hexval_def hexDigits_def)

lemma hex4_low:
  assumes "n < 256"
  shows "hex4 CHR ''0'' CHR ''0'' (hexDigits ! (n div 16)) (hexDigits ! (n mod 16)) = Some n"
proof -
  have "n div 16 < 16" "n mod 16 < 16" using assms by simp_all
  then show ?thesis
    by (simp add: hex4_def hexval_zero hexDigits_nth)
qed

lemma parse_escape:
  "parseString (jsonEscape c @ tail)
     = (case parseString tail of Some (s, t) \<Rightarrow> Some (c # s, t) | None \<Rightarrow> None)"
proof -
  define n :: nat where "n = of_char c"
  have c: "char_of n = c" by (simp add: n_def)
  have n256: "n < 256" by (simp add: n_def)
  consider (dq) "c = dquote" | (bs) "c = bslash"
    | (short) "c \<noteq> dquote" "c \<noteq> bslash" "n \<in> {8, 12, 10, 13, 9}"
    | (u) "c \<noteq> dquote" "c \<noteq> bslash" "n \<notin> {8, 12, 10, 13, 9}" "n < 32"
    | (plain) "c \<noteq> dquote" "c \<noteq> bslash" "n \<notin> {8, 12, 10, 13, 9}" "\<not> n < 32"
    by auto
  then show ?thesis
  proof cases
    case dq
    then show ?thesis
      by (auto simp: jsonEscape_def unescape_def split: option.splits)
  next
    case bs
    then show ?thesis
      by (auto simp: jsonEscape_def unescape_def split: option.splits)
  next
    case short
    then show ?thesis using c
      by (auto simp: jsonEscape_def unescape_def n_def [symmetric] split: option.splits)
  next
    case u
    then show ?thesis using c hex4_low [OF n256]
      by (auto simp: jsonEscape_def n_def [symmetric] split: option.splits)
  next
    case plain
    then show ?thesis
      by (auto simp: jsonEscape_def n_def [symmetric] split: option.splits)
  qed
qed

lemma parse_quoted:
  "parseString (concat (map jsonEscape s) @ dquote # rest) = Some (s, rest)"
  by (induction s) (simp_all add: parse_escape)

lemma expect_simps:
  "expect [] s = Some s"
  "expect (c # p) [] = None"
  "expect (c # p) (d # s) = (if c = d then expect p s else None)"
  by (simp_all add: expect_def)

lemma parseField_quoted:
  "parseField ''botId'' (jsonKey ''botId'' @ QuoteJSONString v @ rest) = Some (v, rest)"
  "parseField ''botName'' (jsonKey ''botName'' @ QuoteJSONString v @ rest) = Some (v, rest)"
  "parseField ''userId'' (jsonKey ''userId'' @ QuoteJSONString v @ rest) = Some (v, rest)"
  by (simp_all add: parseField_def jsonKey_def QuoteJSONString_def expect_simps parse_quoted)

lemma parseValue_quoted: "parseValue (QuoteJSONString v @ rest) = Some (Some v, rest)"
  by (simp add: parseValue_def QuoteJSONString_def expect_simps parse_quoted)

lemma parseValue_null: "parseValue (''null'' @ rest) = Some (None, rest)"
  by (simp add: parseValue_def expect_simps)

lemma JSON_parse_stringify: "JSON_parse (JSON_stringify d) = Some d"
proof -
  have e1: "expect ''{'' (''{'' @ t) = Some t" for t
    by (simp add: expect_simps)
  have e2: "expect '','' ('','' @ t) = Some t" for t
    by (simp add: expect_simps)
  have e3: "expect ('','' @ jsonKey ''channelId'') ('','' @ jsonKey ''channelId'' @ t) = Some t" for t
    by (simp add: expect_simps jsonKey_def)
  have v: "parseValue ((case sd_channelId d of Some c \<Rightarrow> QuoteJSONString c | None \<Rightarrow> ''null'') @ ''}'')
             = Some (sd_channelId d, ''}'')"
    using parseValue_quoted parseValue_null by (cases "sd_channelId d") simp_all
  show ?thesis
    unfolding JSON_parse_def JSON_stringify_def
    by (simp only: e1 e2 e3 v parseField_quoted option.case prod.case append_assoc if_True
        refl SessionData.surjective [symmetric] unit.exhaust) simp
qed

text \<open>
  C9. Decoding the session id that \<open>processConversation\<close> builds gives back the record it
  was built from: the bot id, the bot name, the id of the author of the user message, and
  the channel id, which for a thread is the id of its parent.
\<close>

theorem session_id_round_trip:
  "decodeSessionId (encodeSessionId (buildSessionData botId botName userMessage ch))
     = Some \<lparr>sd_botId = botId, sd_botName = botName, sd_userId = author_id userMessage,
             sd_channelId = (if isThread ch then parentId ch else Some (channel_id ch))\<rparr>"
  by (simp add: decodeSessionId_def encodeSessionId_def fromBase64_toBase64 JSON_parse_stringify
      buildSessionData_def)

end
